theory Spec2Isabelle
  imports Main "HOL-Library.Sublist"
begin

section \<open>Strings\<close>

text \<open>
  JavaScript strings are modelled as \<open>string\<close> (lists of characters).  The methods the
  source uses are \<open>startsWith\<close>, \<open>endsWith\<close>, \<open>split\<close>, \<open>join\<close>, \<open>slice\<close> and lodash's
  \<open>capitalize\<close>.  \<open>s.startsWith(p)\<close> is \<open>prefix p s\<close> and \<open>s.endsWith(p)\<close> is \<open>suffix p s\<close>.
\<close>

abbreviation startsWith :: "string \<Rightarrow> string \<Rightarrow> bool" where
  "startsWith s p \<equiv> prefix p s"

abbreviation endsWith :: "string \<Rightarrow> string \<Rightarrow> bool" where
  "endsWith s p \<equiv> suffix p s"

text \<open>\<open>s.split(c)\<close> for a one-character separator: never the empty list.\<close>

fun string_split :: "char \<Rightarrow> string \<Rightarrow> string list" where
  "string_split c [] = [[]]"
| "string_split c (x # xs) =
     (if x = c then [] # string_split c xs
      else (case string_split c xs of
              [] \<Rightarrow> [[x]]
            | y # ys \<Rightarrow> (x # y) # ys))"

text \<open>\<open>parts.join(sep)\<close>.\<close>

fun string_join :: "string \<Rightarrow> string list \<Rightarrow> string" where
  "string_join sep [] = []"
| "string_join sep [x] = x"
| "string_join sep (x # y # ys) = x @ sep @ string_join sep (y # ys)"

text \<open>
  lodash's \<open>capitalize\<close>: the first character to upper case, the remaining ones to lower
  case.  The model converts the ASCII letters and leaves every other character as it is.
\<close>

definition toUpperCase :: "char \<Rightarrow> char" where
  "toUpperCase c =
     (case map_of (zip ''abcdefghijklmnopqrstuvwxyz'' ''ABCDEFGHIJKLMNOPQRSTUVWXYZ'') c of
        None \<Rightarrow> c
      | Some u \<Rightarrow> u)"

definition toLowerCase :: "char \<Rightarrow> char" where
  "toLowerCase c =
     (case map_of (zip ''ABCDEFGHIJKLMNOPQRSTUVWXYZ'' ''abcdefghijklmnopqrstuvwxyz'') c of
        None \<Rightarrow> c
      | Some l \<Rightarrow> l)"

definition capitalize :: "string \<Rightarrow> string" where
  "capitalize s = (case map toLowerCase s of [] \<Rightarrow> [] | c # cs \<Rightarrow> toUpperCase c # cs)"

text \<open>A template literal prints an undefined value as the text \<open>undefined\<close>.\<close>

definition template :: "string option \<Rightarrow> string" where
  "template v = (case v of None \<Rightarrow> ''undefined'' | Some s \<Rightarrow> s)"

section \<open>Data model\<close>

text \<open>Opaque JSON values (the metadata properties that are passed through).\<close>

datatype json =
    JNull
  | JBool bool
  | JNumber int
  | JString string
  | JArray "json list"
  | JObject "(string \<times> json) list"

text \<open>
  \<open>ElementDefinition.ts\<close> is not among the sources.  The records below hold the attributes
  of an element that \<open>StructureDefinition.ts\<close> reads or writes (\<open>id\<close>, \<open>path\<close>,
  \<open>sliceName\<close>, \<open>type\<close> with \<open>code\<close> and \<open>targetProfile\<close>, \<open>min\<close>, \<open>max\<close>,
  \<open>mustSupport\<close>, \<open>isModifier\<close>, \<open>isSummary\<close>) and the remaining attributes of the
  specification's data model (fixed value, binding, slicing).  An optional attribute is an
  \<open>option\<close>; \<open>type\<close> is the ordered list of allowed types.

  \<open>ElementJSON\<close> is the JSON form of an element: its attributes.  An
  \<open>ElementDefinition\<close> has the same attributes and, besides, the attributes it was
  imported with (\<open>original\<close>), against which its differential is computed.  The
  back-reference \<open>structDef\<close> is a non-owning association and is not a field: every
  function that needs the owner takes it as an argument.
\<close>

record ElementDefinitionType =
  code :: string
  targetProfile :: "string list option"

record ElementDefinitionSlicing =
  discriminatorType :: string
  discriminatorPath :: string
  ordered :: bool
  rules :: string

record ElementDefinitionBinding =
  valueSet :: string
  strength :: string

record ElementJSON =
  id_ed :: string
  path :: string
  sliceName :: "string option"
  min_ed :: "nat option"
  max_ed :: "string option"
  type_ed :: "ElementDefinitionType list"
  mustSupport :: "bool option"
  isModifier :: "bool option"
  isSummary :: "bool option"
  fixedValue :: "json option"
  binding :: "ElementDefinitionBinding option"
  slicing :: "ElementDefinitionSlicing option"

record ElementDefinition = ElementJSON +
  original :: "ElementJSON option"

text \<open>
  The class \<open>StructureDefinition\<close>: the property \<open>type\<close> (declared a string, read by
  path resolution), the other pass-through properties by name, and the element list.
\<close>

record StructureDefinition =
  type_sd :: "string option"
  props :: "string \<rightharpoonup> json"
  elements :: "ElementDefinition list"

type_synonym ResolveFn = "string \<Rightarrow> StructureDefinition option"

record ElementListJSON =
  element :: "ElementJSON list option"

record LooseStructDefJSON =
  resourceType :: string
  type_json :: "string option"
  props_json :: "string \<rightharpoonup> json"
  snapshot :: "ElementListJSON option"
  differential :: "ElementListJSON option"

record PathPart =
  base :: string
  brackets :: "string list option"

text \<open>
  The methods of \<open>ElementDefinition\<close> that \<open>StructureDefinition.ts\<close> calls.  Their code
  is not among the sources, so the functions of \<open>StructureDefinition\<close> take them as a
  parameter.  In the source an element is an object, shared by the tree and by the
  candidates of a resolution; in the model it is a value.  A method that changes the
  element or its owner therefore returns the new state of the owner (and of the element,
  where the caller goes on using it).  \<open>findElementByPath\<close> replaces its candidates by
  elements that a method has just returned whenever a method has changed the tree, so the
  candidates it reads are never out of date.
\<close>

record ElementMethods =
  unfold :: "ResolveFn \<Rightarrow> ElementDefinition \<Rightarrow> StructureDefinition
    \<Rightarrow> ElementDefinition list \<times> StructureDefinition"
  sliceIt :: "string \<Rightarrow> string \<Rightarrow> bool \<Rightarrow> string \<Rightarrow> ElementDefinition \<Rightarrow> StructureDefinition
    \<Rightarrow> ElementDefinition \<times> StructureDefinition"
  addSlice :: "string \<Rightarrow> ElementDefinitionType \<Rightarrow> ElementDefinition \<Rightarrow> StructureDefinition
    \<Rightarrow> ElementDefinition \<times> StructureDefinition"
  children :: "ElementDefinition \<Rightarrow> StructureDefinition \<Rightarrow> ElementDefinition list"
  hasDiff :: "ElementDefinition \<Rightarrow> bool"
  calculateDiff :: "ElementDefinition \<Rightarrow> ElementDefinition"
  toJSON_ed :: "ElementDefinition \<Rightarrow> ElementJSON"
  fromJSON_ed :: "ElementJSON \<Rightarrow> ElementDefinition"

section \<open>Construction and insertion\<close>

text \<open>
  Modelled from the spec: the constructor of \<open>ElementDefinition\<close> (not among the
  sources), \<open>new ElementDefinition(id)\<close>: the node with the given id and no other
  attribute.  Its path is the type path of the id; the constructor of
  \<open>StructureDefinition\<close> calls it with an id without slice names, where that is the id
  itself.
\<close>

definition new_ElementDefinition :: "string \<Rightarrow> ElementDefinition" where
  "new_ElementDefinition i =
     \<lparr> id_ed = i, path = i, sliceName = None, min_ed = None, max_ed = None, type_ed = [],
       mustSupport = None, isModifier = None, isSummary = None, fixedValue = None,
       binding = None, slicing = None, original = None \<rparr>"

text \<open>The constructor of \<open>StructureDefinition\<close>: a root element and nothing else.\<close>

definition new_StructureDefinition :: StructureDefinition where
  "new_StructureDefinition =
     (let root = (new_ElementDefinition [])
            \<lparr> min_ed := Some 0, max_ed := Some ''*'', mustSupport := Some False,
              isModifier := Some False, isSummary := Some False \<rparr>
      in \<lparr> type_sd = None, props = Map.empty, elements = [root] \<rparr>)"

text \<open>
  The loop of \<open>addElement\<close> over the ids of the elements from index \<open>i\<close> on: the result is
  the number of elements stepped over before the loop ends (by \<open>break\<close> or at the end of
  the list).
\<close>

fun insertionIndex :: "string \<Rightarrow> string \<Rightarrow> string list \<Rightarrow> nat" where
  "insertionIndex elementId lastMatchId [] = 0"
| "insertionIndex elementId lastMatchId (currentId # rest) =
     (if startsWith elementId currentId
      then Suc (insertionIndex elementId currentId rest)
      else if \<not> startsWith currentId lastMatchId then 0
      else Suc (insertionIndex elementId lastMatchId rest))"

text \<open>\<open>xs.splice(i, 0, x)\<close>.\<close>

definition splice :: "nat \<Rightarrow> 'a \<Rightarrow> 'a list \<Rightarrow> 'a list" where
  "splice i x xs = take i xs @ x # drop i xs"

definition addElement :: "StructureDefinition \<Rightarrow> ElementDefinition \<Rightarrow> StructureDefinition" where
  "addElement sd el =
     sd\<lparr> elements :=
           splice (insertionIndex (id_ed el) [] (map id_ed (elements sd))) el (elements sd) \<rparr>"

definition addElements :: "StructureDefinition \<Rightarrow> ElementDefinition list \<Rightarrow> StructureDefinition" where
  "addElements sd els = foldl addElement sd els"

definition findElement :: "StructureDefinition \<Rightarrow> string \<Rightarrow> ElementDefinition option" where
  "findElement sd i = (if i = [] then None else find (\<lambda>e. id_ed e = i) (elements sd))"

section \<open>Path resolution\<close>

text \<open>\<open>parseFSHPath\<close>: one \<open>PathPart\<close> for each dot-separated part of the path.\<close>

definition parsePathPart :: "string \<Rightarrow> PathPart" where
  "parsePathPart pathPart =
     (let splitPathPart = string_split CHR ''['' pathPart in
      if length splitPathPart = 1 \<or> endsWith pathPart ''[x]''
      then \<lparr> base = pathPart, brackets = None \<rparr>
      else (case splitPathPart of
              [] \<Rightarrow> \<lparr> base = pathPart, brackets = None \<rparr>
            | fhirPathBase # rest \<Rightarrow> \<lparr> base = fhirPathBase, brackets = Some (map butlast rest) \<rparr>))"

definition parseFSHPath :: "string \<Rightarrow> PathPart list" where
  "parseFSHPath fshPath = map parsePathPart (string_split CHR ''.'' fshPath)"

text \<open>
  The callback of \<open>sliceMatchingValueX\<close>: for an element whose path ends in \<open>[x]\<close>, the
  first of its types whose capitalized code, put in place of \<open>[x]\<close>, gives the path
  looked for.
\<close>

definition matchingTypeOf :: "string \<Rightarrow> ElementDefinition \<Rightarrow> ElementDefinitionType option" where
  "matchingTypeOf fhirPath e =
     (if endsWith (path e) ''[x]''
      then find (\<lambda>t. take (length (path e) - 3) (path e) @ capitalize (code t) = fhirPath)
             (type_ed e)
      else None)"

definition sliceMatchingValueX ::
  "ElementMethods \<Rightarrow> string \<Rightarrow> ElementDefinition list \<Rightarrow> StructureDefinition
     \<Rightarrow> ElementDefinition option \<times> StructureDefinition" where
  "sliceMatchingValueX m fhirPath elems sd =
     (case find (\<lambda>e. matchingTypeOf fhirPath e \<noteq> None) elems of
        None \<Rightarrow> (None, sd)
      | Some matchingXElement \<Rightarrow>
          (case matchingTypeOf fhirPath matchingXElement of
             None \<Rightarrow> (None, sd)
           | Some matchingType \<Rightarrow>
               (case sliceIt m ''type'' ''$this'' False ''open'' matchingXElement sd of
                  (sliced, sd1) \<Rightarrow>
                    (case addSlice m (last (string_split CHR ''.'' fhirPath)) matchingType
                            sliced sd1 of
                       (newSlice, sd2) \<Rightarrow> (Some newSlice, sd2)))))"

definition findMatchingSlice :: "string list \<Rightarrow> ElementDefinition list \<Rightarrow> ElementDefinition option" where
  "findMatchingSlice brs elems = find (\<lambda>e. sliceName e = Some (string_join ''/'' brs)) elems"

text \<open>
  The callback of \<open>findMatchingRef\<close>.  The \<open>for\<close> loop over the types returns in its
  first iteration, so only the first type is looked at; an element without types gives
  \<open>undefined\<close>.  The result of \<open>targetProfile.find\<close> is the profile found, which counts
  as true unless it is the empty string.  \<open>brackets.slice(-1)[0]\<close> is undefined for an
  empty list of brackets.
\<close>

definition tpRefName :: "string \<Rightarrow> string" where
  "tpRefName tp = takeWhile (\<lambda>c. c \<noteq> CHR ''|'') (last (string_split CHR ''/'' tp))"

definition refName :: "string list \<Rightarrow> string option" where
  "refName brs = (if brs = [] then None else Some (last brs))"

definition typeMatchesRef :: "string list \<Rightarrow> ElementDefinitionType \<Rightarrow> bool" where
  "typeMatchesRef brs t =
     (code t = ''Reference'' \<and>
      (case targetProfile t of
         None \<Rightarrow> False
       | Some tps \<Rightarrow>
           (case find (\<lambda>tp. Some (tpRefName tp) = refName brs) tps of
              None \<Rightarrow> False
            | Some tp \<Rightarrow> tp \<noteq> [])))"

definition matchesRef :: "string list \<Rightarrow> ElementDefinition \<Rightarrow> bool" where
  "matchesRef brs e =
     (if length brs = 1 \<or> sliceName e = Some (string_join ''/'' (butlast brs))
      then (case type_ed e of [] \<Rightarrow> False | t # _ \<Rightarrow> typeMatchesRef brs t)
      else False)"

definition findMatchingRef :: "string list \<Rightarrow> ElementDefinition list \<Rightarrow> ElementDefinition option" where
  "findMatchingRef brs elems = find (matchesRef brs) elems"

text \<open>
  One iteration of the loop of \<open>findElementByPath\<close>.  The state is the structure
  definition, the running path \<open>fhirPathString\<close> and \<open>matchingElements\<close>; the result
  \<open>None\<close> is the \<open>return\<close> of the loop body (nothing found), and the structure
  definition comes back as the iteration left it.
\<close>

definition filterBrackets ::
  "ElementMethods \<Rightarrow> PathPart \<Rightarrow> StructureDefinition \<Rightarrow> string \<Rightarrow> ElementDefinition list
     \<Rightarrow> StructureDefinition \<times> (string \<times> ElementDefinition list) option" where
  "filterBrackets m pathPart sd fhirPathString matchingElements =
     (case brackets pathPart of
        None \<Rightarrow> (sd, Some (fhirPathString, matchingElements))
      | Some brs \<Rightarrow>
          (case findMatchingSlice brs matchingElements of
             Some sliceElement \<Rightarrow>
               (sd, Some (fhirPathString, sliceElement # children m sliceElement sd))
           | None \<Rightarrow>
               (case findMatchingRef brs matchingElements of
                  Some matchingRefElement \<Rightarrow>
                    (sd, Some (fhirPathString,
                               matchingRefElement # children m matchingRefElement sd))
                | None \<Rightarrow> (sd, None))))"

definition resolvePart ::
  "ElementMethods \<Rightarrow> ResolveFn \<Rightarrow> PathPart \<Rightarrow> StructureDefinition \<Rightarrow> string
     \<Rightarrow> ElementDefinition list
     \<Rightarrow> StructureDefinition \<times> (string \<times> ElementDefinition list) option" where
  "resolvePart m resolve pathPart sd fhirPathString0 matchingElements =
     (let fhirPathString1 = fhirPathString0 @ ''.'' @ base pathPart;
          filtered = filter (\<lambda>e. startsWith (path e) fhirPathString1) matchingElements;
          (sd1, fhirPathString, sliced) =
            (if filtered = []
             then (case sliceMatchingValueX m fhirPathString1 matchingElements sd of
                     (Some newSlice, sd') \<Rightarrow> (sd', path newSlice, [newSlice])
                   | (None, sd') \<Rightarrow> (sd', fhirPathString1, filtered))
             else (sd, fhirPathString1, filtered));
          (sd2, newMatchingElements) =
            (if sliced = [] \<and> length matchingElements = 1
             then (case unfold m resolve (hd matchingElements) sd1 of
                     (newElements, sd') \<Rightarrow>
                       (sd', if newElements \<noteq> []
                             then filter (\<lambda>e. startsWith (path e) fhirPathString) newElements
                             else sliced))
             else (sd1, sliced))
      in if newMatchingElements \<noteq> []
         then filterBrackets m pathPart sd2 fhirPathString newMatchingElements
         else (sd2, None))"

fun resolveParts ::
  "ElementMethods \<Rightarrow> ResolveFn \<Rightarrow> PathPart list \<Rightarrow> StructureDefinition \<Rightarrow> string
     \<Rightarrow> ElementDefinition list
     \<Rightarrow> StructureDefinition \<times> (string \<times> ElementDefinition list) option" where
  "resolveParts m resolve [] sd fhirPathString matchingElements =
     (sd, Some (fhirPathString, matchingElements))"
| "resolveParts m resolve (pathPart # rest) sd fhirPathString matchingElements =
     (case resolvePart m resolve pathPart sd fhirPathString matchingElements of
        (sd', None) \<Rightarrow> (sd', None)
      | (sd', Some (fhirPathString', matchingElements')) \<Rightarrow>
          resolveParts m resolve rest sd' fhirPathString' matchingElements')"

text \<open>\<open>fullPath\<close>: the path the fast path of \<open>findElementByPath\<close> looks for.\<close>

definition fullPath :: "StructureDefinition \<Rightarrow> string \<Rightarrow> string option" where
  "fullPath sd p = (if p \<noteq> [] then Some (template (type_sd sd) @ ''.'' @ p) else type_sd sd)"

text \<open>
  \<open>findElementByPath\<close> returns the element found (or \<open>None\<close> for \<open>undefined\<close>) together
  with the structure definition as the call leaves it.
\<close>

definition findElementByPath ::
  "ElementMethods \<Rightarrow> ResolveFn \<Rightarrow> StructureDefinition \<Rightarrow> string
     \<Rightarrow> StructureDefinition \<times> ElementDefinition option" where
  "findElementByPath m resolve sd p =
     (case find (\<lambda>e. Some (path e) = fullPath sd p) (elements sd) of
        Some match \<Rightarrow> (sd, Some match)
      | None \<Rightarrow>
          (case resolveParts m resolve (parseFSHPath p) sd (template (type_sd sd))
                  (elements sd) of
             (sd', None) \<Rightarrow> (sd', None)
           | (sd', Some (fhirPathString, matchingElements)) \<Rightarrow>
               (let exact = filter (\<lambda>e. path e = fhirPathString) matchingElements
                in (sd', if length exact = 1 then Some (hd exact) else None))))"

section \<open>Export and import\<close>

definition PROPS :: "string list" where
  "PROPS =
     [''id'', ''meta'', ''implicitRules'', ''language'', ''text'', ''contained'',
      ''extension'', ''modifierExtension'', ''url'', ''identifier'', ''version'', ''name'',
      ''title'', ''status'', ''experimental'', ''date'', ''publisher'', ''contact'',
      ''description'', ''useContext'', ''jurisdiction'', ''purpose'', ''copyright'',
      ''keyword'', ''fhirVersion'', ''mapping'', ''kind'', ''abstract'', ''context'',
      ''contextInvariant'', ''type'', ''baseDefinition'', ''derivation'']"

text \<open>
  \<open>toJSON\<close>.  The property \<open>type\<close> has a field of its own in the model; the other
  properties of \<open>PROPS\<close> are copied by name.
\<close>

definition toJSON :: "ElementMethods \<Rightarrow> StructureDefinition \<Rightarrow> LooseStructDefJSON" where
  "toJSON m sd =
     \<lparr> resourceType = ''StructureDefinition'',
       type_json = type_sd sd,
       props_json = props sd |` set PROPS,
       snapshot = Some \<lparr> element = Some (map (toJSON_ed m) (elements sd)) \<rparr>,
       differential =
         Some \<lparr> element = Some (map (\<lambda>e. toJSON_ed m (calculateDiff m e))
                                  (filter (hasDiff m) (elements sd))) \<rparr> \<rparr>"

text \<open>
  \<open>fromJSON\<close>: a new structure definition; each property of \<open>PROPS\<close> that the JSON
  defines is copied; the element list is emptied (\<open>sd.elements.length = 0\<close>) and then
  filled from \<open>snapshot.element\<close> when both are there.  \<open>resourceType\<close> and
  \<open>differential\<close> are not read.
\<close>

definition copyProps :: "LooseStructDefJSON \<Rightarrow> StructureDefinition \<Rightarrow> StructureDefinition" where
  "copyProps j sd =
     sd\<lparr> type_sd := (case type_json j of Some t \<Rightarrow> Some t | None \<Rightarrow> type_sd sd),
         props := (\<lambda>prop. if prop \<in> set PROPS
                           then (case props_json j prop of
                                   Some v \<Rightarrow> Some v
                                 | None \<Rightarrow> props sd prop)
                           else props sd prop) \<rparr>"

definition pushElement ::
  "ElementMethods \<Rightarrow> StructureDefinition \<Rightarrow> ElementJSON \<Rightarrow> StructureDefinition" where
  "pushElement m sd el = sd\<lparr> elements := elements sd @ [fromJSON_ed m el] \<rparr>"

definition fromJSON :: "ElementMethods \<Rightarrow> LooseStructDefJSON \<Rightarrow> StructureDefinition" where
  "fromJSON m j =
     (let sd = (copyProps j new_StructureDefinition)\<lparr> elements := [] \<rparr>
      in (case snapshot j of
            None \<Rightarrow> sd
          | Some snap \<Rightarrow>
              (case element snap of
                 None \<Rightarrow> sd
               | Some els \<Rightarrow> foldl (pushElement m) sd els)))"

section \<open>The methods of an element, from the specification\<close>

text \<open>
  Modelled from the spec: \<open>ElementDefinition.toJSON\<close> (\<open>ElementDefinition.ts\<close> is not among
  the sources).  The codec converts a node to the external JSON format: the JSON of a node
  is its attributes.
\<close>

definition ed_toJSON :: "ElementDefinition \<Rightarrow> ElementJSON" where
  "ed_toJSON e = ElementJSON.truncate e"

text \<open>
  Modelled from the spec: \<open>ElementDefinition.fromJSON\<close> (not among the sources).  The
  codec converts a node from the external JSON format: the node rebuilt from a JSON has
  the attributes of the JSON, which it also keeps as the state it was imported with.
\<close>

definition ed_fromJSON :: "ElementJSON \<Rightarrow> ElementDefinition" where
  "ed_fromJSON j = ElementJSON.extend j (ElementDefinition.fields (Some j))"

text \<open>
  Modelled from the spec: \<open>ElementDefinition.hasDiff\<close> (not among the sources).  It is
  true if the node carries a locally introduced constraint or is itself newly introduced:
  its attributes are not those it was imported with.
\<close>

definition ed_hasDiff :: "ElementDefinition \<Rightarrow> bool" where
  "ed_hasDiff e = (original e \<noteq> Some (ElementJSON.truncate e))"

text \<open>
  Modelled from the spec: the comparison behind \<open>ElementDefinition.calculateDiff\<close> (not
  among the sources): an attribute is kept only if it has changed.
\<close>

definition changed :: "'a option \<Rightarrow> 'a option \<Rightarrow> 'a option" where
  "changed old new = (if new = old then None else new)"

text \<open>
  Modelled from the spec: \<open>ElementDefinition.calculateDiff\<close> (not among the sources).  It
  is the minimal view of the node: \<open>id\<close> and \<open>path\<close>, plus only the changed attributes.
\<close>

definition ed_calculateDiff :: "ElementDefinition \<Rightarrow> ElementDefinition" where
  "ed_calculateDiff e =
     (case original e of
        None \<Rightarrow> e
      | Some orig \<Rightarrow>
          e\<lparr> sliceName := changed (sliceName orig) (sliceName e),
             min_ed := changed (min_ed orig) (min_ed e),
             max_ed := changed (max_ed orig) (max_ed e),
             type_ed := (if type_ed e = type_ed orig then [] else type_ed e),
             mustSupport := changed (mustSupport orig) (mustSupport e),
             isModifier := changed (isModifier orig) (isModifier e),
             isSummary := changed (isSummary orig) (isSummary e),
             fixedValue := changed (fixedValue orig) (fixedValue e),
             binding := changed (binding orig) (binding e),
             slicing := changed (slicing orig) (slicing e) \<rparr>)"

text \<open>
  An element is an object that the tree and the candidates of a resolution share.  In the
  model an element is a value, and a change of an element in place is the replacement of
  its first occurrence in the tree.
\<close>

fun replaceFirst :: "'a \<Rightarrow> 'a \<Rightarrow> 'a list \<Rightarrow> 'a list" where
  "replaceFirst old new [] = []"
| "replaceFirst old new (x # xs) =
     (if x = old then new # xs else x # replaceFirst old new xs)"

text \<open>
  Modelled from the spec: \<open>ElementDefinition.sliceIt\<close> (not among the sources).  It marks
  the node as sliced with the given discriminator kind and path, ordering and rule.  The
  result is the node as changed, and the tree with the node changed in place.
\<close>

definition ed_sliceIt ::
  "string \<Rightarrow> string \<Rightarrow> bool \<Rightarrow> string \<Rightarrow> ElementDefinition \<Rightarrow> StructureDefinition
     \<Rightarrow> ElementDefinition \<times> StructureDefinition" where
  "ed_sliceIt dType dPath isOrdered rule e sd =
     (let sliced = e\<lparr> slicing := Some \<lparr> discriminatorType = dType, discriminatorPath = dPath,
                                       ordered = isOrdered, rules = rule \<rparr> \<rparr>
      in (sliced, sd\<lparr> elements := replaceFirst e sliced (elements sd) \<rparr>))"

text \<open>
  Modelled from the spec: \<open>ElementDefinition.addSlice\<close> (not among the sources).  It creates
  one child node representing the slice, whose \<open>sliceName\<close> is the given name and whose
  allowed types are narrowed to the given type, inserts it with \<open>addElement\<close> and returns
  it.  Re-invoking it for the same node and name must not duplicate the slice: a slice
  that is already in the tree (the node with the slice's id: the id of the sliced node,
  a colon and the name) is returned as it is.
\<close>

definition ed_addSlice ::
  "string \<Rightarrow> ElementDefinitionType \<Rightarrow> ElementDefinition \<Rightarrow> StructureDefinition
     \<Rightarrow> ElementDefinition \<times> StructureDefinition" where
  "ed_addSlice name t e sd =
     (case find (\<lambda>c. id_ed c = id_ed e @ '':'' @ name) (elements sd) of
        Some present \<Rightarrow> (present, sd)
      | None \<Rightarrow>
          (let slice = e\<lparr> id_ed := id_ed e @ '':'' @ name, sliceName := Some name,
                          type_ed := [t], slicing := None, original := None \<rparr>
           in (slice, addElement sd slice)))"

text \<open>
  Modelled from the spec: \<open>ElementDefinition.children\<close> (not among the sources): the nodes
  whose id is a dotted-prefix extension of the node's id.
\<close>

definition ed_children :: "ElementDefinition \<Rightarrow> StructureDefinition \<Rightarrow> ElementDefinition list" where
  "ed_children e sd = filter (\<lambda>c. startsWith (id_ed c) (id_ed e @ ''.'')) (elements sd)"

text \<open>
  Modelled from the spec: the rewriting of a copied node in \<open>ElementDefinition.unfold\<close>
  (not among the sources): the \<open>id\<close> and the \<open>path\<close> of the copy are rooted under the
  node \<open>e\<close> instead of the root of the type's definition.
\<close>

definition rebase :: "ElementDefinition \<Rightarrow> ElementDefinition \<Rightarrow> ElementDefinition \<Rightarrow> ElementDefinition" where
  "rebase root e c =
     c\<lparr> id_ed := id_ed e @ drop (length (id_ed root)) (id_ed c),
        path := path e @ drop (length (path root)) (path c) \<rparr>"

text \<open>
  Modelled from the spec: \<open>ElementDefinition.unfold\<close> (not among the sources).  When the
  node represents a type whose children are not yet present, the type's definition is
  fetched through the resolver, its element subtree (without its own root) is copied, the
  \<open>id\<close> and \<open>path\<close> of each copy are rewritten to be rooted under the node, and the copies
  are inserted with \<open>addElements\<close>.  The result is the new nodes, or none if the type
  cannot be resolved.  Children that are already present are detected and returned
  instead of being created again.
\<close>

definition ed_unfold ::
  "ResolveFn \<Rightarrow> ElementDefinition \<Rightarrow> StructureDefinition
     \<Rightarrow> ElementDefinition list \<times> StructureDefinition" where
  "ed_unfold resolve e sd =
     (if ed_children e sd \<noteq> [] then (ed_children e sd, sd)
      else (case type_ed e of
              [t] \<Rightarrow>
                (case resolve (code t) of
                   None \<Rightarrow> ([], sd)
                 | Some def \<Rightarrow>
                     (case elements def of
                        [] \<Rightarrow> ([], sd)
                      | root # rest \<Rightarrow>
                          (let newElements = map (rebase root e) rest
                           in (newElements, addElements sd newElements))))
            | _ \<Rightarrow> ([], sd)))"

text \<open>The methods modelled from the specification, together.\<close>

definition elementMethods :: ElementMethods where
  "elementMethods =
     \<lparr> unfold = ed_unfold, sliceIt = ed_sliceIt, addSlice = ed_addSlice,
       children = ed_children, hasDiff = ed_hasDiff, calculateDiff = ed_calculateDiff,
       toJSON_ed = ed_toJSON, fromJSON_ed = ed_fromJSON \<rparr>"

section \<open>The child-locality invariant\<close>






definition idsOf :: "StructureDefinition \<Rightarrow> string list" where
  "idsOf sd = map id_ed (elements sd)"

section \<open>The snapshot of a JSON\<close>

text \<open>
  The elements of \<open>snapshot.element\<close>; none when the JSON has no snapshot, or its snapshot
  no element list.
\<close>

definition snapshotElements :: "LooseStructDefJSON \<Rightarrow> ElementJSON list" where
  "snapshotElements j =
     (case snapshot j of
        None \<Rightarrow> []
      | Some snap \<Rightarrow> (case element snap of None \<Rightarrow> [] | Some els \<Rightarrow> els))"

section \<open>Names for the statements about slicing and unfolding\<close>







section \<open>Example inputs\<close>

definition elem :: "string \<Rightarrow> string \<Rightarrow> ElementDefinitionType list \<Rightarrow> ElementDefinition" where
  "elem i p ts = (new_ElementDefinition i)\<lparr> path := p, type_ed := ts \<rparr>"

definition plainType :: "string \<Rightarrow> ElementDefinitionType" where
  "plainType c = \<lparr> code = c, targetProfile = None \<rparr>"

definition referenceTo :: "string list \<Rightarrow> ElementDefinitionType" where
  "referenceTo tps = \<lparr> code = ''Reference'', targetProfile = Some tps \<rparr>"

text \<open>A small structure definition of type \<open>Observation\<close>.\<close>

definition observation :: StructureDefinition where
  "observation =
     \<lparr> type_sd = Some ''Observation'', props = Map.empty,
       elements =
         [elem ''Observation'' ''Observation'' [],
          elem ''Observation.subject'' ''Observation.subject''
            [referenceTo [''http://hl7.org/fhir/StructureDefinition/Patient|4.0.1'']],
          elem ''Observation.value[x]'' ''Observation.value[x]''
            [plainType ''Quantity'', plainType ''string''],
          elem ''Observation.component'' ''Observation.component''
            [plainType ''BackboneElement'']] \<rparr>"

text \<open>The definition of a type with two children, and a resolver that knows it.\<close>

definition backbone :: StructureDefinition where
  "backbone =
     \<lparr> type_sd = Some ''BackboneElement'', props = Map.empty,
       elements =
         [elem ''BackboneElement'' ''BackboneElement'' [],
          elem ''BackboneElement.id'' ''BackboneElement.id'' [plainType ''string''],
          elem ''BackboneElement.code'' ''BackboneElement.code''
            [plainType ''CodeableConcept'']] \<rparr>"

definition resolveBackbone :: ResolveFn where
  "resolveBackbone name = (if name = ''BackboneElement'' then Some backbone else None)"



text \<open>JSON of a resource that is not a structure definition, with a one-element snapshot.\<close>

definition patientJSON :: LooseStructDefJSON where
  "patientJSON =
     \<lparr> resourceType = ''Patient'', type_json = Some ''Patient'', props_json = Map.empty,
       snapshot = Some \<lparr> element = Some [ed_toJSON (elem ''Patient'' ''Patient'' [])] \<rparr>,
       differential = None \<rparr>"

text \<open>JSON of a structure definition without a snapshot.\<close>

definition noSnapshotJSON :: LooseStructDefJSON where
  "noSnapshotJSON =
     \<lparr> resourceType = ''StructureDefinition'', type_json = Some ''Observation'',
       props_json = Map.empty, snapshot = None, differential = None \<rparr>"

text \<open>
  Two elements with the slice name \<open>a/b\<close> and the same two allowed types, a string and a
  reference to \<open>Patient\<close>, in either order.
\<close>

definition referenceSecond :: ElementDefinition where
  "referenceSecond =
     (elem ''Observation.focus:a/b'' ''Observation.focus''
        [plainType ''string'',
         referenceTo [''http://hl7.org/fhir/StructureDefinition/Patient'']])
       \<lparr> sliceName := Some ''a/b'' \<rparr>"

definition referenceFirst :: ElementDefinition where
  "referenceFirst =
     (elem ''Observation.focus:a/b'' ''Observation.focus''
        [referenceTo [''http://hl7.org/fhir/StructureDefinition/Patient''],
         plainType ''string''])
       \<lparr> sliceName := Some ''a/b'' \<rparr>"



section \<open>Insertion keeps the tree local\<close>



























section \<open>Import and export\<close>

lemma elements_pushElement:
  "elements (foldl (pushElement m) sd els) = elements sd @ map (fromJSON_ed m) els"
  by (induction els arbitrary: sd) (simp_all add: pushElement_def)

lemma elements_fromJSON:
  "elements (fromJSON m j) = map (fromJSON_ed m) (snapshotElements j)"
  by (simp add: fromJSON_def snapshotElements_def elements_pushElement
      split: option.splits)

lemma snapshotElements_toJSON:
  "snapshotElements (toJSON m sd) = map (toJSON_ed m) (elements sd)"
  by (simp add: toJSON_def snapshotElements_def)

lemma snapshot_toJSON:
  "snapshot (toJSON m sd) = Some \<lparr> element = Some (map (toJSON_ed m) (elements sd)) \<rparr>"
  by (simp add: toJSON_def)

text \<open>
  Whatever the codec of the elements is: exporting, importing and exporting again gives
  the same snapshot as exporting once, provided that the JSON of each element is stable
  under decoding and encoding again.
\<close>

lemma toJSON_fromJSON_toJSON_snapshot:
  assumes "\<forall>e\<in>set (elements sd). toJSON_ed m (fromJSON_ed m (toJSON_ed m e)) = toJSON_ed m e"
  shows "snapshot (toJSON m (fromJSON m (toJSON m sd))) = snapshot (toJSON m sd)"
  using assms by (simp add: snapshot_toJSON elements_fromJSON snapshotElements_toJSON)

lemma ed_toJSON_ed_fromJSON: "ed_toJSON (ed_fromJSON j) = j"
  by (simp add: ed_toJSON_def ed_fromJSON_def ElementJSON.defs ElementDefinition.defs)

text \<open>
  Claim C3, as the code has it.  \<open>fromJSON\<close> does not read \<open>resourceType\<close>: for every
  input, the resource it rebuilds is the same whatever the \<open>resourceType\<close> of the input
  is.  That the input is a structure definition is required of the caller and is not
  enforced at the import.
\<close>

theorem fromJSON_ignores_resourceType:
  "fromJSON m (j\<lparr> resourceType := t \<rparr>) = fromJSON m j"
  by (simp add: fromJSON_def copyProps_def cong: if_cong)

theorem fromJSON_ignores_resourceType_witness:
  "fromJSON elementMethods (patientJSON\<lparr> resourceType := ''StructureDefinition'' \<rparr>)
   = fromJSON elementMethods patientJSON"
  by (rule fromJSON_ignores_resourceType)

text \<open>
  The claim as stated fails: a JSON whose \<open>resourceType\<close> is \<open>Patient\<close> is imported
  like any other, into the resource that the same JSON with the \<open>resourceType\<close>
  \<open>StructureDefinition\<close> gives, with the type and the element of the JSON.
\<close>

theorem fromJSON_resourceType_counterexample:
  "resourceType patientJSON \<noteq> ''StructureDefinition''
   \<and> fromJSON elementMethods patientJSON
       = fromJSON elementMethods (patientJSON\<lparr> resourceType := ''StructureDefinition'' \<rparr>)
   \<and> type_sd (fromJSON elementMethods patientJSON) = Some ''Patient''
   \<and> elements (fromJSON elementMethods patientJSON)
       = [ed_fromJSON (ed_toJSON (elem ''Patient'' ''Patient'' []))]"
  by (simp add: fromJSON_def copyProps_def patientJSON_def pushElement_def elementMethods_def
      new_StructureDefinition_def cong: if_cong)

text \<open>
  Claim C4, as the code has it.  For every input JSON without a snapshot, without
  \<open>snapshot.element\<close>, or with an empty \<open>snapshot.element\<close>, \<open>fromJSON\<close> yields a resource
  whose element list is empty: the root that the constructor made is discarded before
  the snapshot is read.
\<close>

theorem fromJSON_without_snapshot:
  assumes "snapshotElements j = []"
  shows "elements (fromJSON m j) = []"
  using assms by (simp add: elements_fromJSON)

theorem fromJSON_without_snapshot_witness:
  "snapshotElements noSnapshotJSON = [] \<and> elements (fromJSON elementMethods noSnapshotJSON) = []"
proof -
  have h: "snapshotElements noSnapshotJSON = []"
    by (simp add: snapshotElements_def noSnapshotJSON_def)
  from h fromJSON_without_snapshot[OF h] show ?thesis by simp
qed

text \<open>
  The claim as stated fails: imported from a JSON without a snapshot, the resource has no
  element at all, where a freshly constructed one has its root.
\<close>

theorem fromJSON_without_snapshot_counterexample:
  "snapshot noSnapshotJSON = None
   \<and> elements (fromJSON elementMethods noSnapshotJSON) = []
   \<and> elements (fromJSON elementMethods noSnapshotJSON) \<noteq> elements new_StructureDefinition"
  by (simp add: fromJSON_def noSnapshotJSON_def new_StructureDefinition_def)

text \<open>
  Claim C7.  For every resource \<open>r\<close> (in particular one populated only by importing a
  snapshot), the snapshot element list of \<open>toJSON(fromJSON(toJSON(r)))\<close> is the snapshot
  element list of \<open>toJSON(r)\<close>, in order and content.  The codec of the elements is the
  one modelled from the specification.
\<close>

theorem toJSON_fromJSON_roundtrip:
  "snapshot (toJSON elementMethods (fromJSON elementMethods (toJSON elementMethods r)))
   = snapshot (toJSON elementMethods r)"
  by (rule toJSON_fromJSON_toJSON_snapshot) (simp add: elementMethods_def ed_toJSON_ed_fromJSON)

section \<open>Reference matching\<close>

text \<open>
  The name taken from a target profile never has a version suffix, so a bracket that
  carries one matches no element.
\<close>

lemma tpRefName_no_bar: "CHR ''|'' \<notin> set (tpRefName tp)"
  unfolding tpRefName_def by (metis (mono_tags, lifting) set_takeWhileD)

theorem versioned_bracket_no_match:
  assumes "brs \<noteq> []" and "CHR ''|'' \<in> set (last brs)"
  shows "\<not> matchesRef brs e"
proof -
  have "\<And>tp. Some (tpRefName tp) \<noteq> refName brs"
  proof
    fix tp assume "Some (tpRefName tp) = refName brs"
    with assms(1) have "tpRefName tp = last brs" by (simp add: refName_def)
    with assms(2) tpRefName_no_bar[of tp] show False by simp
  qed
  then have "\<And>tps. find (\<lambda>tp. Some (tpRefName tp) = refName brs) tps = None"
    by (simp add: find_None_iff)
  then show ?thesis
    by (simp add: matchesRef_def typeMatchesRef_def split: list.splits option.splits)
qed

theorem versioned_bracket_no_match_witness:
  "\<not> matchesRef [''Patient|4.0.1'']
       (elem ''Observation.subject'' ''Observation.subject''
          [referenceTo [''http://hl7.org/fhir/StructureDefinition/Patient|4.0.1'']])"
  by (rule versioned_bracket_no_match) simp_all

text \<open>
  Claim C5: for brackets \<open>[a][b][Patient]\<close>, reference matching takes a candidate whose
  \<open>sliceName\<close> is \<open>a/b\<close> and searches among its allowed types for a reference to
  \<open>Patient\<close>.  The code looks at the first allowed type only: the candidate whose
  reference type comes second is not found, the one whose reference type comes first is.
\<close>

theorem findMatchingRef_first_type_only:
  "findMatchingRef [''a'', ''b'', ''Patient''] [referenceSecond] = None
   \<and> findMatchingRef [''a'', ''b'', ''Patient''] [referenceFirst] = Some referenceFirst"
  by (simp add: findMatchingRef_def matchesRef_def typeMatchesRef_def refName_def
      tpRefName_def referenceSecond_def referenceFirst_def elem_def plainType_def
      referenceTo_def new_ElementDefinition_def)

text \<open>
  Claim C10.  With exactly one bracket token, reference matching imposes no requirement
  on the \<open>sliceName\<close> of the candidate: whether an element matches does not change with
  its \<open>sliceName\<close>, and the search is the search for an element whose first type matches.
  With two or more bracket tokens, the element found has the \<open>sliceName\<close> that joins all
  but the last token.
\<close>

theorem findMatchingRef_single_bracket:
  "matchesRef [c] (e\<lparr> sliceName := s \<rparr>) = matchesRef [c] e
   \<and> findMatchingRef [c] elems
       = find (\<lambda>e. case type_ed e of [] \<Rightarrow> False | t # _ \<Rightarrow> typeMatchesRef [c] t) elems
   \<and> (2 \<le> length brs \<longrightarrow> findMatchingRef brs elems = Some e' \<longrightarrow>
        sliceName e' = Some (string_join ''/'' (butlast brs)))"
proof (intro conjI impI)
  show "matchesRef [c] (e\<lparr> sliceName := s \<rparr>) = matchesRef [c] e"
    by (simp add: matchesRef_def)
  show "findMatchingRef [c] elems
       = find (\<lambda>e. case type_ed e of [] \<Rightarrow> False | t # _ \<Rightarrow> typeMatchesRef [c] t) elems"
  proof -
    have "matchesRef [c] = (\<lambda>e. case type_ed e of [] \<Rightarrow> False | t # _ \<Rightarrow> typeMatchesRef [c] t)"
      by (rule ext) (simp add: matchesRef_def)
    then show ?thesis by (simp add: findMatchingRef_def)
  qed
next
  assume len: "2 \<le> length brs" and found: "findMatchingRef brs elems = Some e'"
  from found have "matchesRef brs e'"
    by (auto simp: findMatchingRef_def find_Some_iff)
  with len show "sliceName e' = Some (string_join ''/'' (butlast brs))"
    by (auto simp: matchesRef_def split: if_splits)
qed

theorem findMatchingRef_single_bracket_witness:
  "matchesRef [''Patient''] (referenceFirst\<lparr> sliceName := None \<rparr>)
     = matchesRef [''Patient''] referenceFirst
   \<and> findMatchingRef [''Patient''] [referenceFirst]
       = find (\<lambda>e. case type_ed e of [] \<Rightarrow> False | t # _ \<Rightarrow> typeMatchesRef [''Patient''] t)
           [referenceFirst]
   \<and> sliceName referenceFirst = Some (string_join ''/'' (butlast [''a'', ''b'', ''Patient'']))"
proof -
  have len: "2 \<le> length [''a'', ''b'', ''Patient'']" by simp
  have found: "findMatchingRef [''a'', ''b'', ''Patient''] [referenceFirst] = Some referenceFirst"
    by (simp add: findMatchingRef_def matchesRef_def typeMatchesRef_def refName_def
      tpRefName_def referenceFirst_def elem_def plainType_def
      referenceTo_def new_ElementDefinition_def)
  from findMatchingRef_single_bracket[where c = "''Patient''" and e = referenceFirst
      and s = None and elems = "[referenceFirst]" and brs = "[''a'', ''b'', ''Patient'']"
      and e' = referenceFirst] len found
  show ?thesis by blast
qed

section \<open>Path resolution\<close>

text \<open>The definitions that evaluate a resolution over the example inputs.\<close>

lemmas example_defs =
  observation_def backbone_def resolveBackbone_def elem_def plainType_def referenceTo_def
  new_ElementDefinition_def

lemmas resolution_defs =
  findElementByPath_def fullPath_def template_def parseFSHPath_def parsePathPart_def
  resolvePart_def filterBrackets_def sliceMatchingValueX_def matchingTypeOf_def
  findMatchingSlice_def findMatchingRef_def matchesRef_def typeMatchesRef_def refName_def
  tpRefName_def capitalize_def toUpperCase_def toLowerCase_def suffix_to_prefix Let_def

lemmas method_defs =
  elementMethods_def ed_unfold_def ed_sliceIt_def ed_addSlice_def ed_children_def rebase_def
  addElements_def addElement_def splice_def

text \<open>
  Claim C9.  When some element's path equals \<open>type.path\<close> (or \<open>type\<close>, for the empty
  path), \<open>findElementByPath\<close> returns the first such element in tree order and leaves the
  structure definition as it was, whatever the methods of the elements do: nothing is
  sliced or unfolded.
\<close>

theorem findElementByPath_fast_path:
  assumes "i < length (elements sd)"
    and "Some (path (elements sd ! i)) = fullPath sd p"
    and "\<forall>j<i. Some (path (elements sd ! j)) \<noteq> fullPath sd p"
  shows "findElementByPath m resolve sd p = (sd, Some (elements sd ! i))"
proof -
  have "find (\<lambda>e. Some (path e) = fullPath sd p) (elements sd) = Some (elements sd ! i)"
    unfolding find_Some_iff using assms by blast
  then show ?thesis by (simp add: findElementByPath_def)
qed

theorem findElementByPath_fast_path_witness:
  "1 < length (elements observation)
   \<and> Some (path (elements observation ! 1)) = fullPath observation ''subject''
   \<and> findElementByPath elementMethods resolveBackbone observation ''subject''
       = (observation, Some (elements observation ! 1))"
proof -
  have a: "1 < length (elements observation)" by (simp add: example_defs)
  have b: "Some (path (elements observation ! 1)) = fullPath observation ''subject''"
    by (simp add: example_defs fullPath_def template_def)
  have c: "\<forall>j<1. Some (path (elements observation ! j)) \<noteq> fullPath observation ''subject''"
    by (simp add: example_defs fullPath_def template_def)
  from a b findElementByPath_fast_path[OF a b c] show ?thesis by blast
qed

lemma length_one_iff: "length xs = 1 \<longleftrightarrow> (\<exists>x. xs = [x])"
  by (cases xs) auto

text \<open>
  Claim C2.  When no element has the full path, and the loop over the path parts ends
  with the running path \<open>fhirPathString\<close> and the candidates \<open>matchingElements\<close>,
  \<open>findElementByPath\<close> returns an element exactly when it is the only candidate whose
  path is the running path; with two or more such candidates it returns nothing.
\<close>

theorem findElementByPath_exact_unique:
  assumes "find (\<lambda>e. Some (path e) = fullPath sd p) (elements sd) = None"
    and "resolveParts m resolve (parseFSHPath p) sd (template (type_sd sd)) (elements sd)
           = (sd', Some (fhirPathString, matchingElements))"
  shows "(snd (findElementByPath m resolve sd p) = Some e
            \<longleftrightarrow> filter (\<lambda>c. path c = fhirPathString) matchingElements = [e])
         \<and> (2 \<le> length (filter (\<lambda>c. path c = fhirPathString) matchingElements)
              \<longrightarrow> snd (findElementByPath m resolve sd p) = None)
         \<and> fst (findElementByPath m resolve sd p) = sd'"
proof -
  let ?exact = "filter (\<lambda>c. path c = fhirPathString) matchingElements"
  have res: "findElementByPath m resolve sd p
               = (sd', if length ?exact = 1 then Some (hd ?exact) else None)"
    using assms by (simp add: findElementByPath_def)
  show ?thesis
  proof (cases "length ?exact = 1")
    case True
    then have "\<exists>x. ?exact = [x]" by (simp only: length_one_iff)
    then obtain x where x: "?exact = [x]" by blast
    with res show ?thesis by auto
  next
    case False
    then have "\<And>x. ?exact \<noteq> [x]" by auto
    with res False show ?thesis by auto
  qed
qed

theorem findElementByPath_exact_unique_witness:
  "find (\<lambda>e. Some (path e) = fullPath observation ''subject[Patient]'') (elements observation)
     = None
   \<and> snd (findElementByPath elementMethods resolveBackbone observation ''subject[Patient]'')
       = Some (elements observation ! 1)"
proof -
  have a: "find (\<lambda>e. Some (path e) = fullPath observation ''subject[Patient]'')
             (elements observation) = None"
    by (simp add: example_defs fullPath_def template_def)
  have b: "resolveParts elementMethods resolveBackbone (parseFSHPath ''subject[Patient]'')
             observation (template (type_sd observation)) (elements observation)
           = (observation, Some (''Observation.subject'', [elements observation ! 1]))"
    by (simp add: example_defs resolution_defs method_defs)
  have c: "filter (\<lambda>c. path c = ''Observation.subject'') [elements observation ! 1]
           = [elements observation ! 1]"
    by (simp add: example_defs)
  from findElementByPath_exact_unique[OF a b, of "elements observation ! 1"] a c
  show ?thesis by blast
qed

section \<open>Choice slicing\<close>






lemma map_replaceFirst: "f new = f old \<Longrightarrow> map f (replaceFirst old new xs) = map f xs"
  by (induction xs) auto






lemma matchingTypeOf_slicing [simp]:
  "matchingTypeOf fp (x\<lparr> slicing := v \<rparr>) = matchingTypeOf fp x"
  by (simp add: matchingTypeOf_def)

section \<open>Unfolding\<close>











lemma type_sd_addElements [simp]: "type_sd (addElements sd es) = type_sd sd"
  unfolding addElements_def by (induction es arbitrary: sd) (simp_all add: addElement_def)







section \<open>Nothing is rolled back\<close>

lemma fst_filterBrackets: "fst (filterBrackets m part sd run cands) = sd"
  by (simp add: filterBrackets_def split: option.splits)

lemma sliceMatchingValueX_never_removes:
  assumes "\<forall>a b c d e s. subseq (idsOf s) (idsOf (snd (sliceIt m a b c d e s)))"
    and "\<forall>n t e s. subseq (idsOf s) (idsOf (snd (addSlice m n t e s)))"
  shows "subseq (idsOf sd) (idsOf (snd (sliceMatchingValueX m fp cands sd)))"
proof (cases "find (\<lambda>e. matchingTypeOf fp e \<noteq> None) cands")
  case None
  then show ?thesis by (simp add: sliceMatchingValueX_def)
next
  case (Some x)
  then obtain t where t: "matchingTypeOf fp x = Some t" by (auto simp: find_Some_iff)
  obtain sliced sd1 where s1: "sliceIt m ''type'' ''$this'' False ''open'' x sd = (sliced, sd1)"
    by (cases "sliceIt m ''type'' ''$this'' False ''open'' x sd") auto
  obtain newSlice sd2 where
    s2: "addSlice m (last (string_split CHR ''.'' fp)) t sliced sd1 = (newSlice, sd2)"
    by (cases "addSlice m (last (string_split CHR ''.'' fp)) t sliced sd1") auto
  have "subseq (idsOf sd) (idsOf sd1)"
    using assms(1) s1 by (metis snd_conv)
  moreover have "subseq (idsOf sd1) (idsOf sd2)"
    using assms(2) s2 by (metis snd_conv)
  ultimately have "subseq (idsOf sd) (idsOf sd2)" by (rule subseq_order.trans)
  with Some t s1 s2 show ?thesis by (simp add: sliceMatchingValueX_def)
qed

lemma resolvePart_never_removes:
  assumes "\<forall>resolve e s. subseq (idsOf s) (idsOf (snd (unfold m resolve e s)))"
    and "\<forall>a b c d e s. subseq (idsOf s) (idsOf (snd (sliceIt m a b c d e s)))"
    and "\<forall>n t e s. subseq (idsOf s) (idsOf (snd (addSlice m n t e s)))"
  shows "subseq (idsOf sd) (idsOf (fst (resolvePart m resolve part sd run cands)))"
proof -
  let ?run1 = "run @ ''.'' @ base part"
  let ?filtered = "filter (\<lambda>e. startsWith (path e) ?run1) cands"
  obtain r sdS where smx: "sliceMatchingValueX m ?run1 cands sd = (r, sdS)"
    by (cases "sliceMatchingValueX m ?run1 cands sd") auto
  have keepS: "subseq (idsOf sd) (idsOf sdS)"
    using sliceMatchingValueX_never_removes[OF assms(2,3), of sd ?run1 cands] smx by simp
  obtain news sdU where unf: "unfold m resolve (hd cands) sd = (news, sdU)"
    by (cases "unfold m resolve (hd cands) sd") auto
  have keepU: "subseq (idsOf sd) (idsOf sdU)"
    using assms(1) unf by (metis snd_conv)
  obtain news' sdU' where unf': "unfold m resolve (hd cands) sdS = (news', sdU')"
    by (cases "unfold m resolve (hd cands) sdS") auto
  have "subseq (idsOf sdS) (idsOf sdU')"
    using assms(1) unf' by (metis snd_conv)
  with keepS have keepU': "subseq (idsOf sd) (idsOf sdU')" by (rule subseq_order.trans)
  have "fst (resolvePart m resolve part sd run cands) \<in> {sd, sdS, sdU'}"
    using smx unf'
    by (auto simp: resolvePart_def Let_def fst_filterBrackets split: option.splits if_splits)
  with keepS keepU' show ?thesis by auto
qed

lemma resolveParts_never_removes:
  assumes "\<forall>resolve e s. subseq (idsOf s) (idsOf (snd (unfold m resolve e s)))"
    and "\<forall>a b c d e s. subseq (idsOf s) (idsOf (snd (sliceIt m a b c d e s)))"
    and "\<forall>n t e s. subseq (idsOf s) (idsOf (snd (addSlice m n t e s)))"
  shows "subseq (idsOf sd) (idsOf (fst (resolveParts m resolve parts sd run cands)))"
proof (induction parts arbitrary: sd run cands)
  case Nil
  then show ?case by simp
next
  case (Cons part rest)
  obtain sd' r where step: "resolvePart m resolve part sd run cands = (sd', r)"
    by (cases "resolvePart m resolve part sd run cands") auto
  have keep: "subseq (idsOf sd) (idsOf sd')"
    using resolvePart_never_removes[OF assms, of sd resolve part run cands] step by simp
  show ?case
  proof (cases r)
    case None
    with step keep show ?thesis by simp
  next
    case (Some rc)
    obtain run' cands' where rc: "rc = (run', cands')" by (cases rc) auto
    have "subseq (idsOf sd') (idsOf (fst (resolveParts m resolve rest sd' run' cands')))"
      by (rule Cons.IH)
    with keep have "subseq (idsOf sd) (idsOf (fst (resolveParts m resolve rest sd' run' cands')))"
      by (rule subseq_order.trans)
    with step Some rc show ?thesis by simp
  qed
qed

lemma subseq_splice: "subseq xs (splice k e xs)"
proof -
  have "subseq (take k xs @ drop k xs) (take k xs @ e # drop k xs)"
    by (intro list_emb_append_mono subseq_order.refl) (simp add: subseq_Cons')
  then show ?thesis by (simp add: splice_def)
qed

lemma subseq_ids_addElement: "subseq (idsOf sd) (idsOf (addElement sd e))"
proof -
  have "idsOf (addElement sd e)
          = splice (insertionIndex (id_ed e) [] (idsOf sd)) (id_ed e) (idsOf sd)"
    by (simp add: idsOf_def addElement_def splice_def take_map drop_map)
  then show ?thesis by (simp add: subseq_splice)
qed

lemma subseq_ids_addElements: "subseq (idsOf sd) (idsOf (addElements sd es))"
  unfolding addElements_def
proof (induction es arbitrary: sd)
  case Nil
  then show ?case by simp
next
  case (Cons e es)
  have "subseq (idsOf sd) (idsOf (addElement sd e))" by (rule subseq_ids_addElement)
  also have "subseq (idsOf (addElement sd e)) (idsOf (foldl addElement (addElement sd e) es))"
    by (rule Cons.IH)
  finally show ?case by simp
qed

lemma ed_unfold_never_removes: "subseq (idsOf s) (idsOf (snd (ed_unfold resolve e s)))"
  by (auto simp: ed_unfold_def Let_def subseq_ids_addElements
      split: list.splits option.splits)

lemma ed_sliceIt_never_removes: "subseq (idsOf s) (idsOf (snd (ed_sliceIt a b c d e s)))"
  by (simp add: ed_sliceIt_def Let_def idsOf_def map_replaceFirst)

lemma ed_addSlice_never_removes: "subseq (idsOf s) (idsOf (snd (ed_addSlice n t e s)))"
  by (auto simp: ed_addSlice_def Let_def subseq_ids_addElement split: option.splits)

text \<open>
  \<open>findElementByPath\<close> has no step that takes a node out of the tree: whatever the path
  and whether or not an element is found, the ids of the tree before the call are a
  subsequence of the ids of the tree after it, provided that the methods of the elements
  do not remove nodes either.
\<close>

theorem findElementByPath_never_removes:
  assumes "\<forall>resolve e s. subseq (idsOf s) (idsOf (snd (unfold m resolve e s)))"
    and "\<forall>a b c d e s. subseq (idsOf s) (idsOf (snd (sliceIt m a b c d e s)))"
    and "\<forall>n t e s. subseq (idsOf s) (idsOf (snd (addSlice m n t e s)))"
  shows "subseq (idsOf sd) (idsOf (fst (findElementByPath m resolve sd p)))"
proof (cases "find (\<lambda>e. Some (path e) = fullPath sd p) (elements sd)")
  case (Some match)
  then show ?thesis by (simp add: findElementByPath_def)
next
  case None
  have "fst (findElementByPath m resolve sd p)
          = fst (resolveParts m resolve (parseFSHPath p) sd (template (type_sd sd)) (elements sd))"
    using None by (simp add: findElementByPath_def Let_def split: prod.splits option.splits)
  then show ?thesis
    using resolveParts_never_removes[OF assms] by simp
qed


theorem findElementByPath_never_removes_witness:
  "subseq (idsOf observation)
     (idsOf (fst (findElementByPath elementMethods resolveBackbone observation
                    ''component.foo'')))"
proof -
  have 1: "\<forall>resolve e s. subseq (idsOf s) (idsOf (snd (unfold elementMethods resolve e s)))"
    by (simp add: elementMethods_def ed_unfold_never_removes)
  have 2: "\<forall>a b c d e s. subseq (idsOf s) (idsOf (snd (sliceIt elementMethods a b c d e s)))"
    by (simp add: elementMethods_def ed_sliceIt_never_removes)
  have 3: "\<forall>n t e s. subseq (idsOf s) (idsOf (snd (addSlice elementMethods n t e s)))"
    by (simp add: elementMethods_def ed_addSlice_never_removes)
  show ?thesis by (rule findElementByPath_never_removes[OF 1 2 3])
qed

section \<open>The parts of a path and the candidates they leave\<close>












section \<open>No node is created twice\<close>










section \<open>A failed resolution and the attempts after it\<close>













section \<open>Resolving a choice twice\<close>



lemma length_replaceFirst [simp]: "length (replaceFirst old new xs) = length xs"
  by (induction xs) auto







end
